theory Spec2Isabelle
  imports Complex_Main
begin

section \<open>Errors\<close>

text \<open>
  Every way in which the Python functions modelled below stop without a result is a
  constructor of \<open>error\<close>; a function that can fail returns \<open>error + 'a\<close>, with
  \<open>Inl\<close> for the exception.
\<close>

datatype error =
    AssertionError
  | Exception string
  | KeyError string
  | UnboundLocalError string
  | TypeError
  | UnknownTimeZoneError string
  | NonExistentTimeError
  | AmbiguousTimeError

section \<open>Calendar dates\<close>

text \<open>
  A \<open>pd.Timestamp\<close> at midnight is modelled by its proleptic Gregorian ordinal
  (day 1 is 0001-01-01, as \<open>datetime.toordinal\<close> counts), an \<open>int\<close>. Adding
  \<open>pd.Timedelta(days=k)\<close> is \<open>+ k\<close>. The calendar is taken as unbounded.
\<close>

definition is_leap :: "int \<Rightarrow> bool" where
  "is_leap y = (y mod 4 = 0 \<and> (y mod 100 \<noteq> 0 \<or> y mod 400 = 0))"

definition days_before_year :: "int \<Rightarrow> int" where
  "days_before_year y = (let p = y - 1 in p * 365 + p div 4 - p div 100 + p div 400)"

definition days_in_month :: "int \<Rightarrow> int \<Rightarrow> int" where
  "days_in_month y m =
     (if m = 2 then (if is_leap y then 29 else 28)
      else if m = 4 \<or> m = 6 \<or> m = 9 \<or> m = 11 then 30 else 31)"

definition days_before_month :: "int \<Rightarrow> int \<Rightarrow> int" where
  "days_before_month y m = (\<Sum>k \<leftarrow> [1 ..< nat m]. days_in_month y (int k))"

definition Timestamp :: "int \<Rightarrow> int \<Rightarrow> int \<Rightarrow> int" where
  \<comment> \<open>\<open>pd.Timestamp(year=y, month=m, day=d)\<close>\<close>
  "Timestamp y m d = days_before_year y + days_before_month y m + d"

definition weekday :: "int \<Rightarrow> int" where
  \<comment> \<open>\<open>dt.weekday()\<close>, \<open>dt.dayofweek\<close>: Monday is 0, Sunday is 6\<close>
  "weekday dt = (dt + 6) mod 7"

definition ord2ymd :: "int \<Rightarrow> int \<times> int \<times> int" where
  \<comment> \<open>the inverse of \<open>Timestamp\<close>, as \<open>datetime\<close> computes it\<close>
  "ord2ymd n0 =
     (let n = n0 - 1;
          n400 = n div 146097; n = n mod 146097;
          n100 = n div 36524; n = n mod 36524;
          n4 = n div 1461; n = n mod 1461;
          n1 = n div 365; n = n mod 365;
          y = n400 * 400 + 1 + n100 * 100 + n4 * 4 + n1
      in if n1 = 4 \<or> n100 = 4 then (y - 1, 12, 31)
         else
           (let m = (n + 50) div 32;
                preceding = days_before_month y m
            in if preceding > n
               then (y, m - 1, n - (preceding - days_in_month y (m - 1)) + 1)
               else (y, m, n - preceding + 1)))"

definition year_of :: "int \<Rightarrow> int" where
  \<comment> \<open>\<open>dt.year\<close>\<close>
  "year_of dt = fst (ord2ymd dt)"

definition month_of :: "int \<Rightarrow> int" where
  \<comment> \<open>\<open>dt.month\<close>\<close>
  "month_of dt = fst (snd (ord2ymd dt))"

definition day_of :: "int \<Rightarrow> int" where
  \<comment> \<open>\<open>dt.day\<close>\<close>
  "day_of dt = snd (snd (ord2ymd dt))"

subsection \<open>Holidays and daylight-saving dates (\<open>util.py\<close>)\<close>

text \<open>
  The \<open>while\<close> loops of \<open>util.py\<close> walk day by day to a weekday. Each is a
  recursive function whose measure is the number of days left to that weekday.
\<close>

lemma nat_less_natI: "a < b \<Longrightarrow> 0 < b \<Longrightarrow> nat a < nat b" for a b :: int
  by simp

lemma until_sunday_decreases:
  "weekday dt \<noteq> 6 \<Longrightarrow> nat ((6 - weekday (dt + 1)) mod 7) < nat ((6 - weekday dt) mod 7)"
  unfolding weekday_def by (rule nat_less_natI; presburger)

lemma until_monday_decreases:
  "weekday dt \<noteq> 0 \<Longrightarrow> nat ((7 - weekday (dt + 1)) mod 7) < nat ((7 - weekday dt) mod 7)"
  unfolding weekday_def by (rule nat_less_natI; presburger)

lemma back_to_monday_decreases:
  "weekday dt \<noteq> 0 \<Longrightarrow> nat (weekday (dt - 1)) < nat (weekday dt)"
  unfolding weekday_def by (rule nat_less_natI; presburger)

lemma thanksgiving_loop_decreases:
  "count < 4 \<Longrightarrow>
   nat (7 * (4 - (if weekday dt = 3 then count + 1 else count)) + (3 - weekday (dt + 1)) mod 7)
   < nat (7 * (4 - count) + (3 - weekday dt) mod 7)"
  unfolding weekday_def by (rule nat_less_natI; presburger)

function until_sunday :: "int \<Rightarrow> int" where
  \<comment> \<open>\<open>while dt.weekday() != 6: dt += pd.Timedelta(days=1)\<close>\<close>
  "until_sunday dt = (if weekday dt \<noteq> 6 then until_sunday (dt + 1) else dt)"
  by pat_completeness auto
termination
proof (relation "measure (\<lambda>dt. nat ((6 - weekday dt) mod 7))")
  show "wf (measure (\<lambda>dt. nat ((6 - weekday dt) mod 7)))" by (rule wf_measure)
next
  fix dt :: int
  assume "weekday dt \<noteq> 6"
  then show "(dt + 1, dt) \<in> measure (\<lambda>dt. nat ((6 - weekday dt) mod 7))"
    unfolding in_measure by (rule until_sunday_decreases)
qed

function until_monday :: "int \<Rightarrow> int" where
  \<comment> \<open>\<open>while dt.weekday() != 0: dt += pd.Timedelta(days=1)\<close>\<close>
  "until_monday dt = (if weekday dt \<noteq> 0 then until_monday (dt + 1) else dt)"
  by pat_completeness auto
termination
proof (relation "measure (\<lambda>dt. nat ((7 - weekday dt) mod 7))")
  show "wf (measure (\<lambda>dt. nat ((7 - weekday dt) mod 7)))" by (rule wf_measure)
next
  fix dt :: int
  assume "weekday dt \<noteq> 0"
  then show "(dt + 1, dt) \<in> measure (\<lambda>dt. nat ((7 - weekday dt) mod 7))"
    unfolding in_measure by (rule until_monday_decreases)
qed

function back_to_monday :: "int \<Rightarrow> int" where
  \<comment> \<open>\<open>while dt.weekday() != 0: dt -= pd.Timedelta(days=1)\<close>\<close>
  "back_to_monday dt = (if weekday dt \<noteq> 0 then back_to_monday (dt - 1) else dt)"
  by pat_completeness auto
termination
proof (relation "measure (\<lambda>dt. nat (weekday dt))")
  show "wf (measure (\<lambda>dt. nat (weekday dt)))" by (rule wf_measure)
next
  fix dt :: int
  assume "weekday dt \<noteq> 0"
  then show "(dt - 1, dt) \<in> measure (\<lambda>dt. nat (weekday dt))"
    unfolding in_measure by (rule back_to_monday_decreases)
qed

function thanksgiving_loop :: "int \<Rightarrow> int \<Rightarrow> int" where
  \<comment> \<open>\<open>while count < 4: if dt.weekday() == 3: count += 1; dt += pd.Timedelta(days=1)\<close>\<close>
  "thanksgiving_loop count dt =
     (if count < 4
      then thanksgiving_loop (if weekday dt = 3 then count + 1 else count) (dt + 1)
      else dt)"
  by pat_completeness auto
termination
proof (relation "measure (\<lambda>(count, dt). nat (7 * (4 - count) + (3 - weekday dt) mod 7))")
  show "wf (measure (\<lambda>(count, dt). nat (7 * (4 - count) + (3 - weekday dt) mod 7)))"
    by (rule wf_measure)
next
  fix count dt :: int
  assume "count < 4"
  then show "((if weekday dt = 3 then count + 1 else count, dt + 1), count, dt)
      \<in> measure (\<lambda>(count, dt). nat (7 * (4 - count) + (3 - weekday dt) mod 7))"
    unfolding in_measure prod.case by (rule thanksgiving_loop_decreases)
qed

declare until_sunday.simps [simp del] until_monday.simps [simp del]
  back_to_monday.simps [simp del] thanksgiving_loop.simps [simp del]

definition spring_dst :: "int \<Rightarrow> int" where
  "spring_dst year = until_sunday (Timestamp year 3 1) + 7"

definition fall_dst :: "int \<Rightarrow> int" where
  "fall_dst year = until_sunday (Timestamp year 11 1)"

definition memorial_day :: "int \<Rightarrow> int" where
  "memorial_day year = back_to_monday (Timestamp year 5 31)"

definition labor_day :: "int \<Rightarrow> int" where
  "labor_day year = until_monday (Timestamp year 9 1)"

definition thanksgiving_day :: "int \<Rightarrow> int" where
  "thanksgiving_day year = thanksgiving_loop 0 (Timestamp year 11 1) - 1"

definition new_years_day :: "int \<Rightarrow> int" where
  "new_years_day year =
     (let dt = Timestamp year 1 1 in if weekday dt = 6 then dt + 1 else dt)"

definition independence_day :: "int \<Rightarrow> int" where
  "independence_day year =
     (let dt = Timestamp year 7 4 in if weekday dt = 6 then dt + 1 else dt)"

definition christmas_day :: "int \<Rightarrow> int" where
  "christmas_day year =
     (let dt = Timestamp year 12 25 in if weekday dt = 6 then dt + 1 else dt)"

definition get_holidays :: "int \<Rightarrow> int list" where
  "get_holidays year =
     [labor_day year, memorial_day year, independence_day year,
      new_years_day year, thanksgiving_day year, christmas_day year]"

section \<open>Peak blocks (\<open>util.py\<close>)\<close>


definition date_hour_to_peak_block :: "int \<Rightarrow> int \<Rightarrow> string \<Rightarrow> error + string" where
  "date_hour_to_peak_block date hour iso' =
     (if iso' \<notin> set [''PJM'', ''ISONE'', ''NYISO'', ''MISO'', ''ERCOT'', ''SPP'', ''CAISO'']
      then Inl AssertionError
      else
        (let is_holiday = (date \<in> set (get_holidays (year_of date)));
             is_saturday = (weekday date = 5);
             is_sunday = (weekday date = 6)
         in if iso' \<in> set [''PJM'', ''ISONE'', ''NYISO'', ''MISO'']
            then
              (let is_night = (\<not> (8 \<le> hour \<and> hour \<le> 23));
                   is_off_peak = (is_holiday \<or> is_saturday \<or> is_sunday \<or> is_night)
               in Inr (if \<not> is_off_peak then ''5x16''
                       else (if is_night then ''7x8'' else ''2x16'')))
            else if iso' \<in> set [''ERCOT'', ''SPP'']
            then
              (let is_night = (\<not> (7 \<le> hour \<and> hour \<le> 22));
                   is_off_peak = (is_holiday \<or> is_saturday \<or> is_sunday \<or> is_night)
               in Inr (if \<not> is_off_peak then ''5x16''
                       else (if is_night then ''7x8'' else ''2x16'')))
            else if iso' = ''CAISO''
            then
              (let is_night = (\<not> (7 \<le> hour \<and> hour \<le> 22));
                   is_off_peak = (is_holiday \<or> is_sunday \<or> is_night)
               in if is_off_peak
                  then (if is_night then Inr ''Off-Night'' else Inr ''Off-Sunday'')
                  else (if is_saturday then Inr ''6x16-Saturday'' else Inr ''6x16-Weekday''))
            else Inl (Exception (''ISO not recognized: '' @ iso'))))"

fun split_dash :: "string \<Rightarrow> string" where
  \<comment> \<open>\<open>s.split('-')[0]\<close>: the text before the first \<open>-\<close>\<close>
  "split_dash [] = []"
| "split_dash (c # cs) = (if c = CHR ''-'' then [] else c # split_dash cs)"

definition peak_block_to_traded_peak :: "string \<Rightarrow> string \<Rightarrow> error + string" where
  "peak_block_to_traded_peak peak_block iso' =
     (if iso' \<in> set [''PJM'', ''ISONE'', ''MISO'', ''ERCOT'', ''SPP'']
      then (case map_of [(''5x16'', ''5x16''), (''2x16'', ''Off''), (''7x8'', ''Off'')] peak_block of
              Some t \<Rightarrow> Inr t
            | None \<Rightarrow> Inl (KeyError peak_block))
      else if iso' = ''CAISO'' then Inr (split_dash peak_block)
      else Inl (Exception (''ISO not recognized: '' @ iso')))"

definition peak_block_to_complement :: "string \<Rightarrow> error + string option" where
  "peak_block_to_complement peak_block =
     (if peak_block = ''5x16'' then Inr None
      else if peak_block = ''7x8'' then Inr (Some ''2x16'')
      else if peak_block = ''2x16'' then Inr (Some ''7x8'')
      else if peak_block = ''Off-Night'' then Inr (Some ''Off-Sunday'')
      else if peak_block = ''Off-Sunday'' then Inr (Some ''Off-Night'')
      else if peak_block = ''6x16-Saturday'' then Inr (Some ''6x16-Weekday'')
      else if peak_block = ''6x16-Weekday'' then Inr (Some ''6x16-Saturday'')
      else Inl (Exception (''Peak Block not recognized: '' @ peak_block)))"

section \<open>Properties of the classifier and of the label algebra\<close>

text \<open>
  C2, as the specification states it: \<open>date_hour_to_peak_block\<close> at 2024-07-04, hour 10,
  market PJM returns the label 7x8. The code does not: the statement is false at this input.
\<close>

theorem classify_concrete_counterexample:
  "date_hour_to_peak_block (Timestamp 2024 7 4) 10 ''PJM'' \<noteq> Inr ''7x8''"
  by code_simp

text \<open>
  C2, amended: 2024-07-04 is a Thursday and one of the holidays of 2024, and
  \<open>date_hour_to_peak_block\<close> at hour 10 for PJM returns 2x16 (the holiday makes the day
  off-peak; hour 10 lies inside the 8 to 23 window, so it is not a night hour).
  2024-07-10 is a Wednesday and no holiday; for PJM hour 10 returns 5x16 and hour 2
  returns 7x8.
\<close>

theorem classify_concrete:
  "weekday (Timestamp 2024 7 4) = 3
   \<and> Timestamp 2024 7 4 \<in> set (get_holidays (year_of (Timestamp 2024 7 4)))
   \<and> date_hour_to_peak_block (Timestamp 2024 7 4) 10 ''PJM'' = Inr ''2x16''
   \<and> weekday (Timestamp 2024 7 10) = 2
   \<and> Timestamp 2024 7 10 \<notin> set (get_holidays (year_of (Timestamp 2024 7 10)))
   \<and> date_hour_to_peak_block (Timestamp 2024 7 10) 10 ''PJM'' = Inr ''5x16''
   \<and> date_hour_to_peak_block (Timestamp 2024 7 10) 2 ''PJM'' = Inr ''7x8''"
  by code_simp



text \<open>
  C5: \<open>peak_block_to_complement\<close> maps each of the six paired labels to a label that it
  maps back to the first one; at 5x16 it returns \<open>None\<close> and no error; at every other
  string it raises the exception for an unrecognized peak block.
\<close>

theorem peak_block_to_complement_involution:
  "(l \<in> set [''7x8'', ''2x16'', ''Off-Night'', ''Off-Sunday'', ''6x16-Saturday'', ''6x16-Weekday'']
      \<longrightarrow> (\<exists>l'. peak_block_to_complement l = Inr (Some l')
                \<and> peak_block_to_complement l' = Inr (Some l)))
   \<and> peak_block_to_complement ''5x16'' = Inr None
   \<and> (l \<notin> set [''5x16'', ''7x8'', ''2x16'', ''Off-Night'', ''Off-Sunday'',
                 ''6x16-Saturday'', ''6x16-Weekday'']
      \<longrightarrow> peak_block_to_complement l = Inl (Exception (''Peak Block not recognized: '' @ l)))"
  unfolding peak_block_to_complement_def by auto

theorem peak_block_to_complement_involution_witness:
  "(\<exists>l'. peak_block_to_complement ''7x8'' = Inr (Some l')
         \<and> peak_block_to_complement l' = Inr (Some ''7x8''))
   \<and> peak_block_to_complement ''5x16'' = Inr None
   \<and> peak_block_to_complement ''9x9'' = Inl (Exception ''Peak Block not recognized: 9x9'')"
  using peak_block_to_complement_involution [of "''7x8''"]
    peak_block_to_complement_involution [of "''9x9''"]
  by simp

end
